theory Spec2Isabelle
  imports Complex_Main
begin

section \<open>Values, exceptions and string primitives\<close>

text \<open>
  The bridge handles whatever \<^verbatim>\<open>json.loads\<close> produces: \<^verbatim>\<open>None\<close>, booleans, integers,
  floats, strings, lists and dictionaries with string keys. A dictionary is an association
  list in insertion order; a key is looked up with \<open>map_of\<close> (first binding).
\<close>

datatype pyfloat = Finite rat | PosInf | NegInf | NaN

datatype json =
    JNull
  | JBool bool
  | JInt int
  | JFloat pyfloat
  | JStr string
  | JList "json list"
  | JObj "(string \<times> json) list"

text \<open>
  Exceptions that cross a function boundary. \<open>TimeoutError\<close> is \<^verbatim>\<open>asyncio.TimeoutError\<close>;
  \<open>TypeError\<close> and \<open>AttributeError\<close> are raised by the interpreter when a value of the wrong
  shape is used; \<open>TransportError\<close> stands for every other exception of the HTTP client
  (connection refused, payload error, undecodable bytes), with its description.
\<close>

datatype exn = TimeoutError | TypeError | AttributeError | TransportError string

text \<open>\<^verbatim>\<open>d.get(k, default)\<close> and \<^verbatim>\<open>k in d\<close> on a dictionary.\<close>

definition dict_get :: "(string \<times> json) list \<Rightarrow> string \<Rightarrow> json \<Rightarrow> json" where
  "dict_get kv k dflt = (case map_of kv k of None \<Rightarrow> dflt | Some v \<Rightarrow> v)"

definition dict_has :: "(string \<times> json) list \<Rightarrow> string \<Rightarrow> bool" where
  "dict_has kv k = (map_of kv k \<noteq> None)"

text \<open>\<^verbatim>\<open>s.startswith(p)\<close> and \<^verbatim>\<open>p in s\<close> on strings.\<close>

definition startswith :: "string \<Rightarrow> string \<Rightarrow> bool" where
  "startswith p s = (take (length p) s = p)"

fun contains :: "string \<Rightarrow> string \<Rightarrow> bool" where
  "contains p [] = (p = [])"
| "contains p (c # cs) = (startswith p (c # cs) \<or> contains p cs)"

text \<open>
  A character of a text stands for the code point of its number (\<open>of_char\<close>), so the
  texts of the model are those of code points below 256. \<open>py_isspace\<close> is the set of code
  points \<^verbatim>\<open>str.isspace\<close> accepts and \<^verbatim>\<open>str.strip()\<close> removes: U+0009 to U+000D, U+001C to
  U+0020, U+0085, U+00A0, U+1680, U+2000 to U+200A, U+2028, U+2029, U+202F, U+205F, U+3000.
\<close>

definition py_isspace :: "nat \<Rightarrow> bool" where
  "py_isspace n =
     ((9 \<le> n \<and> n \<le> 13) \<or> (28 \<le> n \<and> n \<le> 32) \<or> n = 133 \<or> n = 160 \<or> n = 5760 \<or>
      (8192 \<le> n \<and> n \<le> 8202) \<or> n = 8232 \<or> n = 8233 \<or> n = 8239 \<or> n = 8287 \<or> n = 12288)"

definition is_space :: "char \<Rightarrow> bool" where
  "is_space c = py_isspace (of_char c)"

text \<open>\<^verbatim>\<open>s.strip()\<close>.\<close>

definition strip :: "string \<Rightarrow> string" where
  "strip s = rev (dropWhile is_space (rev (dropWhile is_space s)))"

text \<open>\<^verbatim>\<open>s.split('\n')\<close>: never empty, one more piece than there are newlines.\<close>

fun split_nl :: "string \<Rightarrow> string list" where
  "split_nl [] = [[]]"
| "split_nl (c # cs) =
     (if c = CHR 0x0A then [] # split_nl cs
      else (case split_nl cs of [] \<Rightarrow> [[c]] | l # ls \<Rightarrow> (c # l) # ls))"

text \<open>\<^verbatim>\<open>"\n".join(parts)\<close> for parts that are all strings.\<close>

fun join_nl :: "string list \<Rightarrow> string" where
  "join_nl [] = []"
| "join_nl [s] = s"
| "join_nl (s # t # ts) = s @ [CHR 0x0A] @ join_nl (t # ts)"

text \<open>
  \<^verbatim>\<open>s.isdigit()\<close>: not empty, and every character a digit. Below 256 the digits are
  U+0030 to U+0039 and the superscripts U+00B2, U+00B3 and U+00B9.
\<close>

definition py_isdigit :: "nat \<Rightarrow> bool" where
  "py_isdigit n = ((48 \<le> n \<and> n \<le> 57) \<or> n = 178 \<or> n = 179 \<or> n = 185)"

definition isdigit :: "string \<Rightarrow> bool" where
  "isdigit s = (s \<noteq> [] \<and> list_all (\<lambda>c. py_isdigit (of_char c)) s)"

text \<open>Truthiness of a value, as \<^verbatim>\<open>if not x\<close> tests it.\<close>

fun truthy :: "json \<Rightarrow> bool" where
  "truthy JNull = False"
| "truthy (JBool b) = b"
| "truthy (JInt n) = (n \<noteq> 0)"
| "truthy (JFloat f) = (f \<noteq> Finite 0)"
| "truthy (JStr s) = (s \<noteq> [])"
| "truthy (JList xs) = (xs \<noteq> [])"
| "truthy (JObj kv) = (kv \<noteq> [])"

text \<open>\<^verbatim>\<open>v == n\<close> for a decoded value and an integer: booleans are the integers 0 and 1.\<close>

fun py_eq_int :: "json \<Rightarrow> int \<Rightarrow> bool" where
  "py_eq_int (JInt m) n = (m = n)"
| "py_eq_int (JBool b) n = ((if b then 1 else 0) = n)"
| "py_eq_int (JFloat (Finite q)) n = (q = of_int n)"
| "py_eq_int _ n = False"

text \<open>
  \<^verbatim>\<open>k in x\<close> for a string \<open>k\<close> and any value \<open>x\<close>: key test on a dictionary, membership on
  a list, substring on a string, \<^verbatim>\<open>TypeError\<close> on everything else.
\<close>

fun py_in :: "string \<Rightarrow> json \<Rightarrow> exn + bool" where
  "py_in k (JObj kv) = Inr (dict_has kv k)"
| "py_in k (JList xs) = Inr (JStr k \<in> set xs)"
| "py_in k (JStr s) = Inr (contains k s)"
| "py_in k _ = Inl TypeError"

text \<open>\<^verbatim>\<open>x[k]\<close> for a string key known to satisfy \<^verbatim>\<open>k in x\<close>.\<close>

fun py_getitem :: "json \<Rightarrow> string \<Rightarrow> exn + json" where
  "py_getitem (JObj kv) k = Inr (dict_get kv k JNull)"
| "py_getitem _ k = Inl TypeError"

text \<open>Decimal text of an integer, as an f-string prints it.\<close>

fun str_nat :: "nat \<Rightarrow> string" where
  "str_nat n =
     (if n < 10 then [char_of (48 + n)]
      else str_nat (n div 10) @ [char_of (48 + n mod 10)])"

declare str_nat.simps [simp del]

definition str_int :: "int \<Rightarrow> string" where
  "str_int i = (if i < 0 then CHR ''-'' # str_nat (nat (- i)) else str_nat (nat i))"

section \<open>Response normalization\<close>

text \<open>The envelope every internally synthesised failure is reported with.\<close>

definition error_envelope :: "string \<Rightarrow> json" where
  "error_envelope msg =
     JObj [(''error'', JObj [(''code'', JInt (- 32603)), (''message'', JStr msg)])]"

text \<open>
  The loop over the content list of \<^verbatim>\<open>_process_tool_response\<close>: a dictionary item whose
  \<^verbatim>\<open>type\<close> is \<^verbatim>\<open>"text"\<close> contributes \<^verbatim>\<open>item.get("text", "")\<close>; every other item contributes
  nothing (a \<^verbatim>\<open>resource_link\<close> is only logged).
\<close>

fun text_parts :: "json list \<Rightarrow> json list" where
  "text_parts [] = []"
| "text_parts (JObj kv # items) =
     (if dict_get kv ''type'' JNull = JStr ''text''
      then dict_get kv ''text'' (JStr []) # text_parts items
      else text_parts items)"
| "text_parts (_ # items) = text_parts items"

text \<open>\<^verbatim>\<open>"\n".join(text_parts)\<close> raises \<^verbatim>\<open>TypeError\<close> when a part is not a string.\<close>

fun str_parts :: "json list \<Rightarrow> string list option" where
  "str_parts [] = Some []"
| "str_parts (JStr s # ps) = map_option ((#) s) (str_parts ps)"
| "str_parts (_ # ps) = None"

definition py_join :: "json list \<Rightarrow> exn + string" where
  "py_join ps = (case str_parts ps of None \<Rightarrow> Inl TypeError | Some ss \<Rightarrow> Inr (join_nl ss))"

text \<open>The parts collected from \<^verbatim>\<open>content\<close>, by its type.\<close>

fun content_parts :: "json \<Rightarrow> json list" where
  "content_parts (JList items) = text_parts items"
| "content_parts (JStr s) = [JStr s]"
| "content_parts _ = []"

text \<open>
  \<^verbatim>\<open>_process_tool_response\<close>. The first test, \<^verbatim>\<open>"error" in response\<close>, and the following
  \<^verbatim>\<open>response.get\<close> decide what happens to a value that is not a dictionary.
\<close>

fun process_tool_response :: "json \<Rightarrow> exn + json" where
  "process_tool_response (JObj resp) =
     (if dict_has resp ''error'' then Inr (JObj resp)
      else (case dict_get resp ''result'' (JObj []) of
              JObj result \<Rightarrow>
                (let is_error = dict_get result ''isError'' (JBool False);
                     content = dict_get result ''content'' (JList [])
                 in (case py_join (content_parts content) of
                       Inl e \<Rightarrow> Inl e
                     | Inr combined_text \<Rightarrow>
                         Inr (JObj [(''jsonrpc'', JStr ''2.0''),
                                    (''id'', dict_get resp ''id'' JNull),
                                    (''result'', JObj [(''isError'', is_error),
                                                       (''content'', JStr combined_text)])])))
            | _ \<Rightarrow> Inr (JObj resp)))"
| "process_tool_response (JList xs) =
     (if JStr ''error'' \<in> set xs then Inr (JList xs) else Inl AttributeError)"
| "process_tool_response (JStr s) =
     (if contains ''error'' s then Inr (JStr s) else Inl AttributeError)"
| "process_tool_response _ = Inl TypeError"

section \<open>The session client\<close>

text \<open>
  The mutable fields of \<^verbatim>\<open>HuskyLensMCPClient\<close>. The aiohttp session object is the
  transport; what it answers is an input of each operation (see below).
\<close>

record client =
  server_url :: string
  request_id :: int
  session_id :: "string option"
  message_url :: "string option"

text \<open>\<^verbatim>\<open>__init__\<close>: \<^verbatim>\<open>server_url.rstrip('/')\<close>, counter 0, no session.\<close>

definition new_client :: "string \<Rightarrow> client" where
  "new_client url =
     \<lparr>server_url = rev (dropWhile (\<lambda>c. c = CHR ''/'') (rev url)),
      request_id = 0, session_id = None, message_url = None\<rparr>"

text \<open>
  What the transport does with one request to a streaming endpoint: it raises on opening
  (\<open>Inl\<close>), or it delivers lines and then either ends (\<open>None\<close>) or raises while the next
  line is awaited or decoded (\<open>Some e\<close>). Lines are the decoded text of each chunk.
\<close>

type_synonym stream = "string list \<times> exn option"
type_synonym connection = "exn + stream"

text \<open>A request that was POSTed: the address and the JSON body.\<close>

type_synonym outbound = "string \<times> json"

text \<open>
  \<^verbatim>\<open>re.search(r'session_id=([a-f0-9-]+)', data_str)\<close>: the leftmost position where the
  literal is followed by at least one character of the class; group 1 is the longest run.
\<close>

definition is_id_char :: "char \<Rightarrow> bool" where
  "is_id_char c =
     (let n = (of_char c :: nat) in (97 \<le> n \<and> n \<le> 102) \<or> (48 \<le> n \<and> n \<le> 57) \<or> n = 45)"

fun re_session_id :: "string \<Rightarrow> string option" where
  "re_session_id [] = None"
| "re_session_id (c # cs) =
     (if startswith ''session_id='' (c # cs) \<and> takeWhile is_id_char (drop 11 (c # cs)) \<noteq> []
      then Some (takeWhile is_id_char (drop 11 (c # cs)))
      else re_session_id cs)"

text \<open>
  The read loop of \<^verbatim>\<open>_establish_session\<close>: \<open>Some\<close> is the state at the \<^verbatim>\<open>break\<close>,
  \<open>None\<close> means the lines ran out. A line holding \<^verbatim>\<open>session_id=\<close> that the pattern
  does not match is passed over; the \<^verbatim>\<open>elif\<close> is not tried for it.
\<close>

fun scan_session :: "client \<Rightarrow> string list \<Rightarrow> client option" where
  "scan_session c [] = None"
| "scan_session c (line # lines) =
     (let line_text = strip line in
      if startswith ''data: '' line_text then
        (let data_str = drop 6 line_text in
         if contains ''session_id='' data_str then
           (case re_session_id data_str of
              Some sid \<Rightarrow> Some (c\<lparr>session_id := Some sid,
                                 message_url := Some (server_url c @ data_str)\<rparr>)
            | None \<Rightarrow> scan_session c lines)
         else if startswith ''/message'' data_str then
           Some (c\<lparr>message_url := Some (server_url c @ data_str)\<rparr>)
         else scan_session c lines)
      else scan_session c lines)"

text \<open>
  \<^verbatim>\<open>_establish_session\<close>: an exception is logged and raised again; a stream that ends
  leaves the loop and the function returns.
\<close>

definition establish_session :: "connection \<Rightarrow> client \<Rightarrow> exn + client" where
  "establish_session conn c =
     (case conn of
        Inl e \<Rightarrow> Inl e
      | Inr (lines, fin) \<Rightarrow>
          (case scan_session c lines of
             Some c' \<Rightarrow> Inr c'
           | None \<Rightarrow> (case fin of None \<Rightarrow> Inr c | Some e \<Rightarrow> Inl e)))"

text \<open>\<^verbatim>\<open>_get_next_id\<close>.\<close>

definition get_next_id :: "client \<Rightarrow> int \<times> client" where
  "get_next_id c = (request_id c + 1, c\<lparr>request_id := request_id c + 1\<rparr>)"

text \<open>The request dictionary both call paths build.\<close>

definition mk_request :: "json \<Rightarrow> json \<Rightarrow> int \<Rightarrow> json" where
  "mk_request tool_name arguments rid =
     JObj [(''method'', JStr ''tools/call''),
           (''params'', JObj [(''name'', tool_name), (''arguments'', arguments)]),
           (''jsonrpc'', JStr ''2.0''),
           (''id'', JInt rid)]"

text \<open>\<^verbatim>\<open>isinstance(data, dict) and data.get('id') == request_id\<close>.\<close>

fun matches_id :: "json \<Rightarrow> int \<Rightarrow> bool" where
  "matches_id (JObj kv) rid = py_eq_int (dict_get kv ''id'' JNull) rid"
| "matches_id _ rid = False"

text \<open>
  The read loop of \<^verbatim>\<open>_call_tool_via_sse\<close>, returning \<^verbatim>\<open>full_response\<close> (initially the
  empty dictionary) or the exception of the stream. \<open>loads\<close> is \<^verbatim>\<open>json.loads\<close>, with
  \<open>None\<close> for \<^verbatim>\<open>JSONDecodeError\<close>. After a decode error both branches go on to the next
  line; they differ in logging only.
\<close>

fun scan_sse :: "(string \<Rightarrow> json option) \<Rightarrow> int \<Rightarrow> string list \<Rightarrow> exn option \<Rightarrow> exn + json" where
  "scan_sse loads rid [] fin = (case fin of None \<Rightarrow> Inr (JObj []) | Some e \<Rightarrow> Inl e)"
| "scan_sse loads rid (line # lines) fin =
     (let line_text = strip line in
      if startswith ''data: '' line_text then
        (let data_str = drop 6 line_text in
         if data_str = ''[DONE]'' then Inr (JObj [])
         else (case loads data_str of
                 Some data \<Rightarrow>
                   if matches_id data rid then Inr data
                   else scan_sse loads rid lines fin
               | None \<Rightarrow>
                   if isdigit data_str then scan_sse loads rid lines fin
                   else scan_sse loads rid lines fin))
      else scan_sse loads rid lines fin)"

text \<open>
  \<^verbatim>\<open>_call_tool_via_sse\<close>. \<open>estr\<close> is \<^verbatim>\<open>str(e)\<close>. Every exception inside the
  \<^verbatim>\<open>try\<close> becomes an envelope, so the result is always a value.
\<close>

definition call_tool_via_sse ::
  "(string \<Rightarrow> json option) \<Rightarrow> (exn \<Rightarrow> string) \<Rightarrow> connection \<Rightarrow> json \<Rightarrow> json \<Rightarrow> client
   \<Rightarrow> json \<times> client \<times> outbound list" where
  "call_tool_via_sse loads estr conn tool_name arguments c =
     (let (rid, c1) = get_next_id c;
          request = mk_request tool_name arguments rid;
          sent = [(server_url c @ ''/sse'', request)]
      in (case conn of
            Inl e \<Rightarrow> (error_envelope (estr e), c1, sent)
          | Inr (lines, fin) \<Rightarrow>
              (case scan_sse loads rid lines fin of
                 Inl e \<Rightarrow> (error_envelope (estr e), c1, sent)
               | Inr full_response \<Rightarrow>
                   if truthy full_response then
                     (case process_tool_response full_response of
                        Inl e \<Rightarrow> (error_envelope (estr e), c1, sent)
                      | Inr r \<Rightarrow> (r, c1, sent))
                   else (error_envelope ''No response received'', c1, sent))))"

text \<open>\<^verbatim>\<open>list_tools\<close>.\<close>

definition list_tools ::
  "(string \<Rightarrow> json option) \<Rightarrow> (exn \<Rightarrow> string) \<Rightarrow> connection \<Rightarrow> client
   \<Rightarrow> json \<times> client \<times> outbound list" where
  "list_tools loads estr conn c =
     call_tool_via_sse loads estr conn (JStr ''tools'') (JObj [(''operation'', JStr ''list'')]) c"

text \<open>
  What the transport does during one \<^verbatim>\<open>call_tool\<close>: the stream opened when no message
  address is known, the reply to the POST (an exception, or a status with the outcome of
  reading the body), the stream of the fallback call, and the stream opened by the
  exception handler.
\<close>

datatype post_reply = PostRaises exn | PostResponse int "exn + string"

record call_env =
  sse_first :: connection
  post :: post_reply
  sse_fallback :: connection
  sse_retry :: connection

text \<open>
  The loop over the lines of a \<^verbatim>\<open>data: \<close> body: \<open>Some\<close> is the outcome of the
  \<^verbatim>\<open>return self._process_tool_response(result)\<close> that was reached, \<open>None\<close> means the loop
  ended without one.
\<close>

fun scan_post_lines :: "(string \<Rightarrow> json option) \<Rightarrow> string list \<Rightarrow> (exn + json) option" where
  "scan_post_lines loads [] = None"
| "scan_post_lines loads (line # lines) =
     (if startswith ''data: '' line \<and> strip (drop 6 line) \<noteq> ''[DONE]'' then
        (case loads (drop 6 line) of
           Some result \<Rightarrow> Some (process_tool_response result)
         | None \<Rightarrow> scan_post_lines loads lines)
      else scan_post_lines loads lines)"

text \<open>
  The two \<^verbatim>\<open>except\<close> clauses of \<^verbatim>\<open>call_tool\<close>. The second awaits
  \<^verbatim>\<open>_establish_session\<close> before its \<^verbatim>\<open>return\<close>.
\<close>

definition on_exception ::
  "(exn \<Rightarrow> string) \<Rightarrow> connection \<Rightarrow> exn \<Rightarrow> client \<Rightarrow> outbound list
   \<Rightarrow> (exn + json) \<times> client \<times> outbound list" where
  "on_exception estr retry e c sent =
     (if e = TimeoutError then (Inr (error_envelope ''Request timeout''), c, sent)
      else (case establish_session retry c of
              Inl e' \<Rightarrow> (Inl e', c, sent)
            | Inr c' \<Rightarrow> (Inr (error_envelope (estr e)), c', sent)))"

text \<open>
  \<^verbatim>\<open>call_tool\<close> from \<^verbatim>\<open>request_id = self._get_next_id()\<close> on, with the message address
  \<open>url\<close>. Falling off the end of the function returns \<^verbatim>\<open>None\<close>, here \<open>JNull\<close>.
\<close>

definition post_call ::
  "(string \<Rightarrow> json option) \<Rightarrow> (exn \<Rightarrow> string) \<Rightarrow> call_env \<Rightarrow> string \<Rightarrow> json \<Rightarrow> json \<Rightarrow> client
   \<Rightarrow> (exn + json) \<times> client \<times> outbound list" where
  "post_call loads estr env url tool_name arguments c =
     (let (rid, c1) = get_next_id c;
          request = mk_request tool_name arguments rid;
          sent = [(url, request)]
      in (case post env of
            PostRaises e \<Rightarrow> on_exception estr (sse_retry env) e c1 sent
          | PostResponse status body \<Rightarrow>
              if status = 200 then
                (case body of
                   Inl e \<Rightarrow> on_exception estr (sse_retry env) e c1 sent
                 | Inr result_text \<Rightarrow>
                     if startswith ''data: '' result_text then
                       (case scan_post_lines loads (split_nl result_text) of
                          Some (Inr r) \<Rightarrow> (Inr r, c1, sent)
                        | Some (Inl e) \<Rightarrow> on_exception estr (sse_retry env) e c1 sent
                        | None \<Rightarrow> (Inr JNull, c1, sent))
                     else
                       (case loads result_text of
                          Some result \<Rightarrow>
                            (case process_tool_response result of
                               Inr r \<Rightarrow> (Inr r, c1, sent)
                             | Inl e \<Rightarrow> on_exception estr (sse_retry env) e c1 sent)
                        | None \<Rightarrow>
                            (case call_tool_via_sse loads estr (sse_fallback env)
                                    tool_name arguments c1 of
                               (r, c2, sent2) \<Rightarrow> (Inr r, c2, sent @ sent2))))
              else (Inr (error_envelope (''HTTP '' @ str_int status)), c1, sent)))"

text \<open>\<^verbatim>\<open>if not self.message_url\<close>: unset or empty.\<close>

fun live_url :: "string option \<Rightarrow> string option" where
  "live_url None = None"
| "live_url (Some u) = (if u = [] then None else Some u)"

text \<open>
  \<^verbatim>\<open>call_tool\<close>. The first \<^verbatim>\<open>_establish_session\<close> is awaited outside the \<^verbatim>\<open>try\<close>.
  The result is the exception that leaves the function (\<open>Inl\<close>) or the returned value,
  with the client afterwards and the requests POSTed.
\<close>

definition call_tool ::
  "(string \<Rightarrow> json option) \<Rightarrow> (exn \<Rightarrow> string) \<Rightarrow> call_env \<Rightarrow> json \<Rightarrow> json \<Rightarrow> client
   \<Rightarrow> (exn + json) \<times> client \<times> outbound list" where
  "call_tool loads estr env tool_name arguments c =
     (case live_url (message_url c) of
        Some url \<Rightarrow> post_call loads estr env url tool_name arguments c
      | None \<Rightarrow>
          (case establish_session (sse_first env) c of
             Inl e \<Rightarrow> (Inl e, c, [])
           | Inr c1 \<Rightarrow>
               (case live_url (message_url c1) of
                  None \<Rightarrow> (Inr (error_envelope ''Failed to establish session''), c1, [])
                | Some url \<Rightarrow> post_call loads estr env url tool_name arguments c1)))"

section \<open>The bridge server\<close>

text \<open>An HTTP response of the bridge: the status and a JSON or plain-text body.\<close>

datatype payload = JsonBody json | TextBody string

record http_response =
  status_code :: int
  payload :: payload

definition json_response :: "json \<Rightarrow> int \<Rightarrow> http_response" where
  "json_response j st = \<lparr>status_code = st, payload = JsonBody j\<rparr>"

text \<open>The last \<^verbatim>\<open>except\<close> clause of \<^verbatim>\<open>handle_tool_call\<close>.\<close>

definition server_error :: "(exn \<Rightarrow> string) \<Rightarrow> exn \<Rightarrow> http_response" where
  "server_error estr e = json_response (JObj [(''error'', JStr (estr e))]) 500"

text \<open>
  The inner \<^verbatim>\<open>try\<close> of \<^verbatim>\<open>handle_tool_call\<close>: content that parses is rendered as JSON,
  other text as plain text. \<^verbatim>\<open>json.loads\<close> raises \<^verbatim>\<open>TypeError\<close> on a value that is not
  text, and \<^verbatim>\<open>web.Response(text=content)\<close> then accepts only \<^verbatim>\<open>None\<close>.
\<close>

fun render_content :: "(string \<Rightarrow> json option) \<Rightarrow> json \<Rightarrow> exn + http_response" where
  "render_content loads (JStr s) =
     (case loads s of
        Some parsed \<Rightarrow> Inr (json_response parsed 200)
      | None \<Rightarrow> Inr \<lparr>status_code = 200, payload = TextBody s\<rparr>)"
| "render_content loads JNull = Inr \<lparr>status_code = 200, payload = TextBody []\<rparr>"
| "render_content loads _ = Inl TypeError"

text \<open>
  \<^verbatim>\<open>handle_tool_call\<close> after the call returned \<open>result\<close>:
  \<^verbatim>\<open>if "result" in result and "content" in result["result"]\<close>.
\<close>

definition render_result :: "(string \<Rightarrow> json option) \<Rightarrow> json \<Rightarrow> exn + http_response" where
  "render_result loads result =
     (case py_in ''result'' result of
        Inl e \<Rightarrow> Inl e
      | Inr has_result \<Rightarrow>
          if has_result then
            (case py_getitem result ''result'' of
               Inl e \<Rightarrow> Inl e
             | Inr inner \<Rightarrow>
                 (case py_in ''content'' inner of
                    Inl e \<Rightarrow> Inl e
                  | Inr has_content \<Rightarrow>
                      if has_content then
                        (case py_getitem inner ''content'' of
                           Inl e \<Rightarrow> Inl e
                         | Inr content \<Rightarrow> render_content loads content)
                      else Inr (json_response result 200)))
          else Inr (json_response result 200))"

text \<open>
  \<^verbatim>\<open>handle_tool_call\<close> on a request whose body text is \<open>request_text\<close>
  (\<^verbatim>\<open>request.json()\<close> is \<^verbatim>\<open>json.loads\<close> of it).
\<close>

definition handle_tool_call ::
  "(string \<Rightarrow> json option) \<Rightarrow> (exn \<Rightarrow> string) \<Rightarrow> call_env \<Rightarrow> string \<Rightarrow> client
   \<Rightarrow> http_response \<times> client \<times> outbound list" where
  "handle_tool_call loads estr env request_text c =
     (case loads request_text of
        None \<Rightarrow> (json_response (JObj [(''error'', JStr ''Invalid JSON'')]) 400, c, [])
      | Some data \<Rightarrow>
          (case data of
             JObj kv \<Rightarrow>
               (let tool_name = dict_get kv ''tool'' JNull;
                    arguments = dict_get kv ''arguments'' (JObj [])
                in if \<not> truthy tool_name then
                     (json_response (JObj [(''error'', JStr ''Missing 'tool' parameter'')]) 400,
                      c, [])
                   else
                     (case call_tool loads estr env tool_name arguments c of
                        (Inl e, c', sent) \<Rightarrow> (server_error estr e, c', sent)
                      | (Inr result, c', sent) \<Rightarrow>
                          (case render_result loads result of
                             Inl e \<Rightarrow> (server_error estr e, c', sent)
                           | Inr resp \<Rightarrow> (resp, c', sent))))
           | _ \<Rightarrow> (server_error estr AttributeError, c, [])))"

section \<open>A process lifetime\<close>

text \<open>
  The operations that touch the client during one run of the process, each with what the
  transport does while it runs: \<^verbatim>\<open>start\<close>, \<^verbatim>\<open>call_tool\<close>, \<^verbatim>\<open>list_tools\<close> and a
  \<^verbatim>\<open>POST /call\<close> request. \<open>run\<close> collects the requests POSTed upstream, in order.
  An exception in \<^verbatim>\<open>start\<close> ends the process.
\<close>

datatype op =
    Start connection
  | CallTool call_env json json
  | ListTools connection
  | PostCall call_env string

fun run ::
  "(string \<Rightarrow> json option) \<Rightarrow> (exn \<Rightarrow> string) \<Rightarrow> op list \<Rightarrow> client \<Rightarrow> outbound list" where
  "run loads estr [] c = []"
| "run loads estr (Start conn # ops) c =
     (case establish_session conn c of
        Inl e \<Rightarrow> []
      | Inr c' \<Rightarrow> run loads estr ops c')"
| "run loads estr (CallTool env tool_name arguments # ops) c =
     (case call_tool loads estr env tool_name arguments c of
        (r, c', sent) \<Rightarrow> sent @ run loads estr ops c')"
| "run loads estr (ListTools conn # ops) c =
     (case list_tools loads estr conn c of
        (r, c', sent) \<Rightarrow> sent @ run loads estr ops c')"
| "run loads estr (PostCall env request_text # ops) c =
     (case handle_tool_call loads estr env request_text c of
        (r, c', sent) \<Rightarrow> sent @ run loads estr ops c')"

text \<open>The \<^verbatim>\<open>id\<close> member of a POSTed request.\<close>

definition posted_id :: "outbound \<Rightarrow> json" where
  "posted_id ob = (case snd ob of JObj kv \<Rightarrow> dict_get kv ''id'' JNull | _ \<Rightarrow> JNull)"

section \<open>Vocabulary of the properties\<close>

text \<open>A content item is text-typed when it is a dictionary whose \<^verbatim>\<open>type\<close> is \<^verbatim>\<open>"text"\<close>.\<close>

fun is_text_item :: "json \<Rightarrow> bool" where
  "is_text_item (JObj kv) = (dict_get kv ''type'' JNull = JStr ''text'')"
| "is_text_item _ = False"

text \<open>The text of an item: its \<^verbatim>\<open>text\<close> member, the empty string when it has none.\<close>

fun item_text :: "json \<Rightarrow> json" where
  "item_text (JObj kv) = dict_get kv ''text'' (JStr [])"
| "item_text _ = JNull"

text \<open>A data line of a stream, and its payload.\<close>

definition is_data_line :: "string \<Rightarrow> bool" where
  "is_data_line line = startswith ''data: '' (strip line)"

definition data_payload :: "string \<Rightarrow> string" where
  "data_payload line = drop 6 (strip line)"

text \<open>
  The values of \<^verbatim>\<open>json.loads\<close> on the texts used in the examples below; every other text
  the examples pass to it is not JSON.
\<close>

definition loads_sample :: "string \<Rightarrow> json option" where
  \<open>loads_sample s =
     (if s = ''{}'' then Some (JObj [])
      else if s = ''5'' then Some (JInt 5)
      else if s = ''{"id": 1, "result": {"content": "ok"}}''
        then Some (JObj [(''id'', JInt 1), (''result'', JObj [(''content'', JStr ''ok'')])])
      else if s = ''{"id": 2, "result": {"content": "ok"}}''
        then Some (JObj [(''id'', JInt 2), (''result'', JObj [(''content'', JStr ''ok'')])])
      else None)\<close>

text \<open>\<^verbatim>\<open>str(e)\<close> on the exceptions used in the examples.\<close>

fun estr_sample :: "exn \<Rightarrow> string" where
  "estr_sample (TransportError m) = m"
| "estr_sample _ = []"

text \<open>
  A line of the session stream that ends the scan of \<^verbatim>\<open>_establish_session\<close>: a data line
  holding a session id the pattern matches, or, when it holds no \<^verbatim>\<open>session_id=\<close>, one whose
  payload starts with \<^verbatim>\<open>/message\<close>.
\<close>

definition discovery_line :: "string \<Rightarrow> bool" where
  "discovery_line line =
     (is_data_line line \<and>
      (if contains ''session_id='' (data_payload line)
       then re_session_id (data_payload line) \<noteq> None
       else startswith ''/message'' (data_payload line)))"

text \<open>
  The lines of a fallback stream, for a request with id \<open>rid\<close>: the terminal sentinel, the
  answer (a data line whose payload parses to a dictionary with that id), and the lines
  that are neither: lines without the data prefix, and data lines whose payload does not
  parse or parses to anything else (a bare number, another id).
\<close>

definition sentinel_line :: "string \<Rightarrow> bool" where
  "sentinel_line line = (is_data_line line \<and> data_payload line = ''[DONE]'')"

definition answer_line :: "(string \<Rightarrow> json option) \<Rightarrow> int \<Rightarrow> string \<Rightarrow> json \<Rightarrow> bool" where
  "answer_line loads rid line d =
     (is_data_line line \<and> data_payload line \<noteq> ''[DONE]'' \<and>
      loads (data_payload line) = Some d \<and> matches_id d rid)"

definition passed_over :: "(string \<Rightarrow> json option) \<Rightarrow> int \<Rightarrow> string \<Rightarrow> bool" where
  "passed_over loads rid line =
     (if is_data_line line
      then data_payload line \<noteq> ''[DONE]'' \<and>
           (case loads (data_payload line) of None \<Rightarrow> True | Some d \<Rightarrow> \<not> matches_id d rid)
      else True)"

text \<open>
  A line of a \<^verbatim>\<open>data: \<close> body that the loop of \<^verbatim>\<open>call_tool\<close> cannot return from: it has
  no data prefix, or its payload is the sentinel, or its payload does not parse.
\<close>

definition unanswering :: "(string \<Rightarrow> json option) \<Rightarrow> string \<Rightarrow> bool" where
  "unanswering loads line =
     (if startswith ''data: '' line \<and> strip (drop 6 line) \<noteq> ''[DONE]''
      then loads (drop 6 line) = None else True)"

text \<open>What the transport does in the examples when nothing else is said.\<close>

definition quiet :: call_env where
  "quiet = \<lparr>sse_first = Inr ([], None), post = PostRaises TimeoutError,
            sse_fallback = Inr ([], None), sse_retry = Inr ([], None)\<rparr>"

text \<open>
  The requests POSTed between two states of the client carry the counter values issued
  between them, in order.
\<close>

definition counted :: "client \<Rightarrow> client \<Rightarrow> outbound list \<Rightarrow> bool" where
  "counted c c' sent \<longleftrightarrow>
     request_id c' = request_id c + int (length sent) \<and>
     map posted_id sent = map JInt [request_id c + 1..request_id c']"

text \<open>A client with an established session, for the examples.\<close>

definition cam :: client where
  "cam = \<lparr>server_url = ''http://cam'', request_id = 0, session_id = Some ''ab12'',
          message_url = Some ''http://cam/message?session_id=ab12''\<rparr>"

section \<open>Normalization: properties\<close>

lemma text_parts_filter: "text_parts items = map item_text (filter is_text_item items)"
  by (induction items rule: text_parts.induct) auto

lemma str_parts_JStr: "str_parts (map JStr ss) = Some ss"
  by (induction ss) auto

lemma py_join_JStr: "py_join (map JStr ss) = Inr (join_nl ss)"
  by (simp add: py_join_def str_parts_JStr)

lemma envelope_result:
  "JObj [(''jsonrpc'', v), (''id'', i), (''result'', r)] = JObj resp \<Longrightarrow>
   dict_get resp ''result'' (JObj []) = r"
  by (auto simp: dict_get_def)

lemma result_content:
  "[(''isError'', e), (''content'', c)] = result \<Longrightarrow> map_of result ''content'' = Some c"
  by auto

text \<open>
  Claim C7. Normalization is idempotent: whenever \<^verbatim>\<open>_process_tool_response\<close> returns a
  value for a response (of any shape), normalizing that value again returns the same value.
\<close>

theorem normalization_idempotent:
  "process_tool_response r = Inr r' \<Longrightarrow> process_tool_response r' = Inr r'"
proof (cases r)
  case (JObj resp)
  assume a: "process_tool_response r = Inr r'"
  show ?thesis
  proof (cases "dict_has resp ''error''")
    case True
    with a JObj show ?thesis by auto
  next
    case False
    show ?thesis
    proof (cases "dict_get resp ''result'' (JObj [])")
      case (JObj result)
      with a \<open>r = JObj resp\<close> False obtain t where
        "r' = JObj [(''jsonrpc'', JStr ''2.0''), (''id'', dict_get resp ''id'' JNull),
               (''result'', JObj [(''isError'', dict_get result ''isError'' (JBool False)),
                                  (''content'', JStr t)])]"
        by (auto simp: Let_def split: sum.splits)
      then show ?thesis
        by (simp add: dict_has_def dict_get_def py_join_def)
    qed (use a \<open>r = JObj resp\<close> False in \<open>auto\<close>)
  qed
qed (auto split: if_splits)

theorem normalization_idempotent_witness:
  "process_tool_response
     (JObj [(''id'', JInt 7),
            (''result'', JObj [(''content'',
               JList [JObj [(''type'', JStr ''text''), (''text'', JStr ''a'')],
                      JObj [(''type'', JStr ''text''), (''text'', JStr ''b'')]])])])
   = Inr (JObj [(''jsonrpc'', JStr ''2.0''), (''id'', JInt 7),
                (''result'', JObj [(''isError'', JBool False),
                                   (''content'', JStr [CHR ''a'', CHR 0x0A, CHR ''b''])])])
   \<and> process_tool_response
     (JObj [(''jsonrpc'', JStr ''2.0''), (''id'', JInt 7),
            (''result'', JObj [(''isError'', JBool False),
                               (''content'', JStr [CHR ''a'', CHR 0x0A, CHR ''b''])])])
   = Inr (JObj [(''jsonrpc'', JStr ''2.0''), (''id'', JInt 7),
                (''result'', JObj [(''isError'', JBool False),
                                   (''content'', JStr [CHR ''a'', CHR 0x0A, CHR ''b''])])])"
proof -
  have h: "process_tool_response
     (JObj [(''id'', JInt 7),
            (''result'', JObj [(''content'',
               JList [JObj [(''type'', JStr ''text''), (''text'', JStr ''a'')],
                      JObj [(''type'', JStr ''text''), (''text'', JStr ''b'')]])])])
   = Inr (JObj [(''jsonrpc'', JStr ''2.0''), (''id'', JInt 7),
                (''result'', JObj [(''isError'', JBool False),
                                   (''content'', JStr [CHR ''a'', CHR 0x0A, CHR ''b''])])])"
    by (simp add: dict_has_def dict_get_def py_join_def)
  from h normalization_idempotent [OF h] show ?thesis by (rule conjI)
qed

text \<open>
  Claim C8, as stated, fails: a text-typed item whose \<^verbatim>\<open>text\<close> is not a string makes the
  join raise \<^verbatim>\<open>TypeError\<close>, so normalization produces no combined text.
\<close>

theorem content_join_counterexample:
  "process_tool_response
     (JObj [(''id'', JInt 1),
            (''result'', JObj [(''content'',
               JList [JObj [(''type'', JStr ''text''), (''text'', JInt 5)]])])])
   = Inl TypeError"
  by (simp add: dict_has_def dict_get_def py_join_def)

text \<open>
  Claim C8, amended. For every response without an \<^verbatim>\<open>error\<close> member whose result is a
  dictionary with a content list in which the texts of the text-typed items are the
  strings \<open>ss\<close>, in order (a missing \<^verbatim>\<open>text\<close> counting as the empty string), normalization
  returns the envelope whose content is \<open>ss\<close> joined by newlines. The items that are not
  text-typed take no part in the result and do not make normalization fail.
\<close>

theorem content_join:
  assumes "\<not> dict_has resp ''error''"
    and "dict_get resp ''result'' (JObj []) = JObj result"
    and "dict_get result ''content'' (JList []) = JList items"
    and "map item_text (filter is_text_item items) = map JStr ss"
  shows "process_tool_response (JObj resp) =
     Inr (JObj [(''jsonrpc'', JStr ''2.0''), (''id'', dict_get resp ''id'' JNull),
               (''result'', JObj [(''isError'', dict_get result ''isError'' (JBool False)),
                                  (''content'', JStr (join_nl ss))])])"
  using assms by (simp add: text_parts_filter py_join_JStr)

theorem content_join_witness:
  "process_tool_response
     (JObj [(''id'', JInt 3),
            (''result'', JObj [(''content'',
               JList [JObj [(''type'', JStr ''text''), (''text'', JStr ''a'')],
                      JObj [(''type'', JStr ''resource_link''), (''uri'', JStr ''file:///x.png'')],
                      JObj [(''type'', JStr ''text''), (''text'', JStr ''b'')]])])])
   = Inr (JObj [(''jsonrpc'', JStr ''2.0''), (''id'', JInt 3),
                (''result'', JObj [(''isError'', JBool False),
                                   (''content'', JStr [CHR ''a'', CHR 0x0A, CHR ''b''])])])"
  using content_join
    [of "[(''id'', JInt 3),
          (''result'', JObj [(''content'',
             JList [JObj [(''type'', JStr ''text''), (''text'', JStr ''a'')],
                    JObj [(''type'', JStr ''resource_link''), (''uri'', JStr ''file:///x.png'')],
                    JObj [(''type'', JStr ''text''), (''text'', JStr ''b'')]])])]"
        "[(''content'',
             JList [JObj [(''type'', JStr ''text''), (''text'', JStr ''a'')],
                    JObj [(''type'', JStr ''resource_link''), (''uri'', JStr ''file:///x.png'')],
                    JObj [(''type'', JStr ''text''), (''text'', JStr ''b'')]])]"
        "[JObj [(''type'', JStr ''text''), (''text'', JStr ''a'')],
          JObj [(''type'', JStr ''resource_link''), (''uri'', JStr ''file:///x.png'')],
          JObj [(''type'', JStr ''text''), (''text'', JStr ''b'')]]"
        "[''a'', ''b'']"]
  by (simp add: dict_has_def dict_get_def)

text \<open>
  Claim C10. For every response without an \<^verbatim>\<open>error\<close> member whose result is a dictionary
  in which \<^verbatim>\<open>content\<close> is missing or is neither a list nor a string, normalization returns
  the envelope with the response's \<^verbatim>\<open>id\<close>, the result's \<^verbatim>\<open>isError\<close> (\<^verbatim>\<open>False\<close> when it has
  none) and the empty string as content; the value returned is not the response itself.
\<close>

theorem odd_content_gives_empty_text:
  assumes "\<not> dict_has resp ''error''"
    and "dict_get resp ''result'' (JObj []) = JObj result"
    and "case map_of result ''content'' of None \<Rightarrow> True
         | Some v \<Rightarrow> (\<forall>xs. v \<noteq> JList xs) \<and> (\<forall>s. v \<noteq> JStr s)"
  shows "process_tool_response (JObj resp) =
     Inr (JObj [(''jsonrpc'', JStr ''2.0''), (''id'', dict_get resp ''id'' JNull),
               (''result'', JObj [(''isError'', dict_get result ''isError'' (JBool False)),
                                  (''content'', JStr [])])])
     \<and> process_tool_response (JObj resp) \<noteq> Inr (JObj resp)"
proof -
  have cp: "content_parts (dict_get result ''content'' (JList [])) = []"
    using assms(3) by (cases "map_of result ''content''"; simp add: dict_get_def)
       (metis content_parts.simps json.exhaust)
  have 1: "process_tool_response (JObj resp) =
     Inr (JObj [(''jsonrpc'', JStr ''2.0''), (''id'', dict_get resp ''id'' JNull),
               (''result'', JObj [(''isError'', dict_get result ''isError'' (JBool False)),
                                  (''content'', JStr [])])])"
    using assms(1,2) cp by (simp add: py_join_def)
  have 2: "JObj [(''jsonrpc'', JStr ''2.0''), (''id'', dict_get resp ''id'' JNull),
               (''result'', JObj [(''isError'', dict_get result ''isError'' (JBool False)),
                                  (''content'', JStr [])])] \<noteq> JObj resp"
  proof
    assume "JObj [(''jsonrpc'', JStr ''2.0''), (''id'', dict_get resp ''id'' JNull),
               (''result'', JObj [(''isError'', dict_get result ''isError'' (JBool False)),
                                  (''content'', JStr [])])] = JObj resp"
    then have "dict_get resp ''result'' (JObj []) =
        JObj [(''isError'', dict_get result ''isError'' (JBool False)), (''content'', JStr [])]"
      by (rule envelope_result)
    with assms(2) have "[(''isError'', dict_get result ''isError'' (JBool False)),
                         (''content'', JStr [])] = result" by simp
    then have "map_of result ''content'' = Some (JStr [])" by (rule result_content)
    with assms(3) show False by simp
  qed
  from 1 2 show ?thesis by simp
qed

theorem odd_content_gives_empty_text_witness:
  "process_tool_response
     (JObj [(''id'', JInt 4),
            (''result'', JObj [(''isError'', JBool True), (''content'', JInt 5)])])
   = Inr (JObj [(''jsonrpc'', JStr ''2.0''), (''id'', JInt 4),
                (''result'', JObj [(''isError'', JBool True), (''content'', JStr [])])])
   \<and> process_tool_response
     (JObj [(''id'', JInt 4),
            (''result'', JObj [(''isError'', JBool True), (''content'', JInt 5)])])
   \<noteq> Inr (JObj [(''id'', JInt 4),
                (''result'', JObj [(''isError'', JBool True), (''content'', JInt 5)])])"
  using odd_content_gives_empty_text
    [of "[(''id'', JInt 4),
          (''result'', JObj [(''isError'', JBool True), (''content'', JInt 5)])]"
        "[(''isError'', JBool True), (''content'', JInt 5)]"]
  by (simp add: dict_has_def dict_get_def)

section \<open>Correlation ids\<close>

lemma scan_session_request_id:
  "scan_session c lines = Some c' \<Longrightarrow> request_id c' = request_id c"
  by (induction lines) (auto simp: Let_def split: if_splits option.splits)

lemma establish_session_request_id:
  "establish_session conn c = Inr c' \<Longrightarrow> request_id c' = request_id c"
  by (auto simp: establish_session_def scan_session_request_id split: sum.splits option.splits)

lemma posted_id_mk_request [simp]: "posted_id (u, mk_request t a n) = JInt n"
  by (simp add: posted_id_def mk_request_def dict_get_def)

lemma counted_refl: "counted c c []"
  by (simp add: counted_def)

lemma upto_append: "i \<le> j + 1 \<Longrightarrow> j \<le> k \<Longrightarrow> [i..j] @ [j + 1..k] = [i..(k::int)]"
proof (cases "i \<le> j")
  case True
  assume "j \<le> k"
  with True show ?thesis by (simp add: upto_split2[of i j k])
next
  case False
  assume "i \<le> j + 1"
  with False have "i = j + 1" by simp
  then show ?thesis by simp
qed

lemma counted_trans:
  assumes "counted c c1 s1" "counted c1 c2 s2"
  shows "counted c c2 (s1 @ s2)"
proof -
  have "[request_id c + 1..request_id c1] @ [request_id c1 + 1..request_id c2] =
        [request_id c + 1..request_id c2]"
    using assms by (intro upto_append) (auto simp: counted_def)
  then have "map JInt [request_id c + 1..request_id c2] =
        map JInt [request_id c + 1..request_id c1] @ map JInt [request_id c1 + 1..request_id c2]"
    by (simp only: map_append[symmetric])
  with assms show ?thesis by (simp add: counted_def)
qed

lemma counted_same_id:
  "counted c c1 s \<Longrightarrow> request_id c2 = request_id c1 \<Longrightarrow> counted c c2 s"
  by (simp add: counted_def)

lemma call_tool_via_sse_counted:
  "call_tool_via_sse loads estr conn t a c = (r, c', sent) \<Longrightarrow> counted c c' sent"
  by (auto simp: call_tool_via_sse_def get_next_id_def counted_def Let_def
           split: sum.splits prod.splits if_splits)

lemma on_exception_counted:
  "on_exception estr retry e c1 sent = (r, c', sent') \<Longrightarrow> counted c c1 sent \<Longrightarrow> counted c c' sent'"
  by (auto simp: on_exception_def counted_def dest: establish_session_request_id
           split: if_splits sum.splits)

lemma get_next_id_counted:
  "get_next_id c = (rid, c1) \<Longrightarrow> counted c c1 [(u, mk_request t a rid)]"
  by (auto simp: get_next_id_def counted_def)

lemma post_call_counted:
  assumes "post_call loads estr env url t a c = (r, c', sent)"
  shows "counted c c' sent"
proof -
  obtain rid c1 where g: "get_next_id c = (rid, c1)" by (cases "get_next_id c")
  then have k: "counted c c1 [(url, mk_request t a rid)]" by (rule get_next_id_counted)
  show ?thesis
    using assms g k
    by (auto simp: post_call_def Let_def
          split: post_reply.splits if_splits sum.splits option.splits prod.splits
          dest: on_exception_counted call_tool_via_sse_counted counted_trans)
qed

lemma call_tool_counted:
  assumes "call_tool loads estr env t a c = (r, c', sent)"
  shows "counted c c' sent"
proof (cases "live_url (message_url c)")
  case (Some url)
  with assms show ?thesis by (auto simp: call_tool_def dest: post_call_counted)
next
  case None
  show ?thesis
  proof (cases "establish_session (sse_first env) c")
    case (Inl e)
    with assms None show ?thesis by (auto simp: call_tool_def counted_refl)
  next
    case (Inr c1)
    then have same: "request_id c1 = request_id c" by (rule establish_session_request_id)
    show ?thesis
    proof (cases "live_url (message_url c1)")
      case None
      with assms \<open>live_url (message_url c) = None\<close> Inr same show ?thesis
        by (auto simp: call_tool_def counted_def)
    next
      case (Some url)
      with assms \<open>live_url (message_url c) = None\<close> Inr
      have "post_call loads estr env url t a c1 = (r, c', sent)"
        by (simp add: call_tool_def)
      then have "counted c1 c' sent" by (rule post_call_counted)
      with same show ?thesis by (simp add: counted_def)
    qed
  qed
qed

lemma handle_tool_call_counted:
  assumes "handle_tool_call loads estr env req c = (r, c', sent)"
  shows "counted c c' sent"
  using assms
  by (auto simp: handle_tool_call_def Let_def counted_refl
        split: option.splits json.splits if_splits prod.splits sum.splits
        dest: call_tool_counted)

lemma run_ids:
  "map posted_id (run loads estr ops c) =
   map JInt [request_id c + 1..request_id c + int (length (run loads estr ops c))]"
proof (induction ops arbitrary: c)
  case Nil
  show ?case by simp
next
  case (Cons x ops)
  have step: "map posted_id (sent @ run loads estr ops c') =
      map JInt [request_id c + 1..request_id c + int (length (sent @ run loads estr ops c'))]"
    if k: "counted c c' sent" for c' sent
  proof -
    let ?rest = "run loads estr ops c'"
    have "[request_id c + 1..request_id c'] @ [request_id c' + 1..request_id c' + int (length ?rest)]
          = [request_id c + 1..request_id c' + int (length ?rest)]"
      using k by (intro upto_append) (auto simp: counted_def)
    then have "map JInt [request_id c + 1..request_id c' + int (length ?rest)] =
        map JInt [request_id c + 1..request_id c'] @
        map JInt [request_id c' + 1..request_id c' + int (length ?rest)]"
      by (simp only: map_append[symmetric])
    moreover have "request_id c' + int (length ?rest) =
        request_id c + int (length (sent @ ?rest))"
      using k by (simp add: counted_def)
    ultimately show ?thesis using k Cons.IH[of c'] by (simp add: counted_def add.assoc)
  qed
  show ?case
  proof (cases x)
    case (Start conn)
    show ?thesis
    proof (cases "establish_session conn c")
      case (Inl e)
      with Start show ?thesis by simp
    next
      case (Inr c')
      then have "request_id c' = request_id c" by (rule establish_session_request_id)
      with Start Inr Cons.IH[of c'] show ?thesis by simp
    qed
  next
    case (CallTool env t a)
    obtain r c' sent where e: "call_tool loads estr env t a c = (r, c', sent)"
      by (cases "call_tool loads estr env t a c") auto
    then have "counted c c' sent" by (rule call_tool_counted)
    from step[OF this] CallTool e show ?thesis by simp
  next
    case (ListTools conn)
    obtain r c' sent where e: "list_tools loads estr conn c = (r, c', sent)"
      by (cases "list_tools loads estr conn c") auto
    then have "counted c c' sent" unfolding list_tools_def by (rule call_tool_via_sse_counted)
    from step[OF this] ListTools e show ?thesis by simp
  next
    case (PostCall env req)
    obtain r c' sent where e: "handle_tool_call loads estr env req c = (r, c', sent)"
      by (cases "handle_tool_call loads estr env req c") auto
    then have "counted c c' sent" by (rule handle_tool_call_counted)
    from step[OF this] PostCall e show ?thesis by simp
  qed
qed

text \<open>
  Claim C6. Over any sequence of operations on a client created by \<^verbatim>\<open>__init__\<close>, and
  whatever the transport answers, the ids of the requests POSTed upstream are, in order,
  1, 2, 3, ...: strictly increasing from 1, none issued twice.
\<close>

theorem correlation_ids_increasing:
  "\<exists>ids. map posted_id (run loads estr ops (new_client url)) = map JInt ids
      \<and> ids = [1..int (length ids)] \<and> sorted_wrt (<) ids \<and> distinct ids"
proof -
  let ?sent = "run loads estr ops (new_client url)"
  let ?ids = "[1..int (length ?sent)]"
  have "map posted_id ?sent = map JInt ?ids"
    using run_ids[of loads estr ops "new_client url"] by (simp add: new_client_def)
  moreover have "length ?ids = length ?sent" by simp
  moreover have "sorted_wrt (<) ?ids" by (rule sorted_wrt_upto)
  moreover have "distinct ?ids" by simp
  ultimately show ?thesis by (intro exI[of _ ?ids]) simp
qed

section \<open>Session establishment\<close>

lemma scan_session_none:
  "list_all (\<lambda>l. \<not> discovery_line l) lines \<Longrightarrow> scan_session c lines = None"
  by (induction lines)
     (auto simp: discovery_line_def is_data_line_def data_payload_def Let_def
           split: option.splits if_splits)

lemma scan_session_match:
  "discovery_line line \<Longrightarrow> scan_session c (line # lines) \<noteq> None"
  by (auto simp: discovery_line_def is_data_line_def data_payload_def Let_def
           split: option.splits if_splits)

text \<open>
  Claim C2, as stated, fails: on a stream that ends with no matching line
  \<^verbatim>\<open>_establish_session\<close> returns normally, and a client that had no session is left
  without a session id and without a message address.
\<close>

theorem establish_stream_end_counterexample:
  "establish_session (Inr ([''event: endpoint'', ''data: hello''], None)) (new_client ''http://cam/'')
     = Inr (new_client ''http://cam/'')
   \<and> message_url (new_client ''http://cam/'') = None
   \<and> session_id (new_client ''http://cam/'') = None"
  by (simp add: establish_session_def new_client_def strip_def is_space_def py_isspace_def startswith_def)

text \<open>
  Claim C2, amended. When no line of the stream matches one of the two discovery shapes:
  if the stream ends, establishment returns normally and leaves the client as it was, and
  a \<^verbatim>\<open>call_tool\<close> made without a message address that meets such a stream returns the
  envelope \<^verbatim>\<open>-32603\<close> / \<^verbatim>\<open>Failed to establish session\<close>, sends nothing and leaves the client
  as it was; if the transport raises, on opening the stream or while reading it, the
  exception is raised to the caller of \<^verbatim>\<open>_establish_session\<close>.
\<close>

theorem establish_without_match:
  assumes "list_all (\<lambda>l. \<not> discovery_line l) lines"
  shows "establish_session (Inr (lines, None)) c = Inr c
       \<and> establish_session (Inr (lines, Some e)) c = Inl e
       \<and> establish_session (Inl e) c = Inl e
       \<and> (live_url (message_url c) = None \<longrightarrow>
            call_tool loads estr (env\<lparr>sse_first := Inr (lines, None)\<rparr>) t a c =
              (Inr (error_envelope ''Failed to establish session''), c, []))"
proof -
  have none: "scan_session c lines = None"
    using assms by (rule scan_session_none)
  then have ends: "establish_session (Inr (lines, None)) c = Inr c"
    and breaks: "establish_session (Inr (lines, Some e)) c = Inl e"
    and refused: "establish_session (Inl e) c = Inl e"
    by (simp_all add: establish_session_def)
  have "call_tool loads estr (env\<lparr>sse_first := Inr (lines, None)\<rparr>) t a c =
          (Inr (error_envelope ''Failed to establish session''), c, [])"
    if "live_url (message_url c) = None"
    using that ends by (simp add: call_tool_def)
  with ends breaks refused show ?thesis by simp
qed

theorem establish_without_match_witness:
  "list_all (\<lambda>l. \<not> discovery_line l) [''event: endpoint'', ''data: hello'']
   \<and> establish_session (Inr ([''event: endpoint'', ''data: hello''], None))
         (new_client ''http://cam/'') = Inr (new_client ''http://cam/'')
   \<and> establish_session
         (Inr ([''event: endpoint'', ''data: hello''], Some (TransportError ''reset'')))
         (new_client ''http://cam/'') = Inl (TransportError ''reset'')
   \<and> establish_session (Inl (TransportError ''reset'')) (new_client ''http://cam/'')
         = Inl (TransportError ''reset'')
   \<and> live_url (message_url (new_client ''http://cam/'')) = None
   \<and> call_tool loads_sample estr_sample
         (quiet\<lparr>sse_first := Inr ([''event: endpoint'', ''data: hello''], None)\<rparr>)
         (JStr ''get_result'') (JObj []) (new_client ''http://cam/'')
       = (Inr (error_envelope ''Failed to establish session''), new_client ''http://cam/'', [])"
proof -
  have h: "list_all (\<lambda>l. \<not> discovery_line l) [''event: endpoint'', ''data: hello'']"
    by (simp add: discovery_line_def is_data_line_def data_payload_def strip_def is_space_def
          py_isspace_def startswith_def)
  have u: "live_url (message_url (new_client ''http://cam/'')) = None"
    by (simp add: new_client_def)
  from h u establish_without_match
    [OF h, where e = "TransportError ''reset''" and c = "new_client ''http://cam/''"
       and loads = loads_sample and estr = estr_sample and env = quiet
       and t = "JStr ''get_result''" and a = "JObj []"]
  show ?thesis by simp
qed

text \<open>
  White space beyond the ASCII range is stripped as well: a line that carries the
  message address after a no-break space is a discovery line, and the sentinel followed
  by a no-break space is the sentinel.
\<close>

lemma discovery_line_nbsp:
  "discovery_line (CHR 0xA0 # ''data: /message?session_id=ab12'')"
  by (simp add: discovery_line_def is_data_line_def data_payload_def strip_def is_space_def
        py_isspace_def startswith_def is_id_char_def)

lemma sentinel_line_nbsp: "sentinel_line (''data: [DONE]'' @ [CHR 0xA0])"
  by (simp add: sentinel_line_def is_data_line_def data_payload_def strip_def is_space_def
        py_isspace_def startswith_def)

section \<open>Calls\<close>

lemma scan_post_lines_none:
  "list_all (unanswering loads) lines \<Longrightarrow> scan_post_lines loads lines = None"
  by (induction lines) (auto simp: unanswering_def split: if_splits)

text \<open>
  Claim C1 does not hold of the code. When the POST is answered with status 200 and a
  \<^verbatim>\<open>data: \<close> body in which every data line is the sentinel or does not parse, the loop
  ends without a \<^verbatim>\<open>return\<close> and \<^verbatim>\<open>call_tool\<close> returns \<^verbatim>\<open>None\<close>, not an error envelope.
\<close>

theorem sse_body_without_payload_returns_none:
  assumes "live_url (message_url c) = Some url"
    and "post env = PostResponse 200 (Inr body)"
    and "startswith ''data: '' body"
    and "list_all (unanswering loads) (split_nl body)"
  shows "fst (call_tool loads estr env t a c) = Inr JNull"
  using assms
  by (simp add: call_tool_def post_call_def get_next_id_def scan_post_lines_none)

theorem sse_body_without_payload_returns_none_witness:
  "live_url (message_url cam) = Some ''http://cam/message?session_id=ab12''
   \<and> startswith ''data: '' ''data: [DONE]''
   \<and> list_all (unanswering loads_sample) (split_nl ''data: [DONE]'')
   \<and> fst (call_tool loads_sample estr_sample
        (quiet\<lparr>post := PostResponse 200 (Inr ''data: [DONE]'')\<rparr>)
        (JStr ''get_result'') (JObj []) cam) = Inr JNull"
  using sse_body_without_payload_returns_none
    [of cam "''http://cam/message?session_id=ab12''"
        "quiet\<lparr>post := PostResponse 200 (Inr ''data: [DONE]'')\<rparr>" "''data: [DONE]''"
        loads_sample estr_sample "JStr ''get_result''" "JObj []"]
  by (simp add: cam_def quiet_def startswith_def unanswering_def strip_def is_space_def py_isspace_def)

text \<open>
  Claim C3 does not hold of the code. \<^verbatim>\<open>call_tool\<close> awaits \<^verbatim>\<open>_establish_session\<close> before
  its \<^verbatim>\<open>try\<close> and again inside its last \<^verbatim>\<open>except\<close> clause, and \<^verbatim>\<open>_establish_session\<close>
  raises what the transport raised: with no message address, a failure to open the stream
  leaves \<^verbatim>\<open>call_tool\<close> as an exception; so does a failure to reopen it after a POST that
  raised anything but a timeout.
\<close>

theorem call_tool_propagates_establish_failure:
  "(live_url (message_url c) = None \<longrightarrow>
      fst (call_tool loads estr (env\<lparr>sse_first := Inl e\<rparr>) t a c) = Inl e)
   \<and> (live_url (message_url c) \<noteq> None \<and> e' \<noteq> TimeoutError \<longrightarrow>
      fst (call_tool loads estr (env\<lparr>post := PostRaises e', sse_retry := Inl e\<rparr>) t a c) = Inl e)"
  by (auto simp: call_tool_def post_call_def get_next_id_def on_exception_def
        establish_session_def)

theorem call_tool_propagates_establish_failure_witness:
  "live_url (message_url (new_client ''http://cam/'')) = None
   \<and> fst (call_tool loads_sample estr_sample
        (quiet\<lparr>sse_first := Inl (TransportError ''connection refused'')\<rparr>)
        (JStr ''get_result'') (JObj []) (new_client ''http://cam/''))
       = Inl (TransportError ''connection refused'')
   \<and> live_url (message_url cam) \<noteq> None
   \<and> fst (call_tool loads_sample estr_sample
        (quiet\<lparr>post := PostRaises (TransportError ''server disconnected''),
               sse_retry := Inl (TransportError ''connection refused'')\<rparr>)
        (JStr ''get_result'') (JObj []) cam)
       = Inl (TransportError ''connection refused'')"
  using call_tool_propagates_establish_failure
    [where c = "new_client ''http://cam/''" and loads = loads_sample and estr = estr_sample
       and env = quiet and e = "TransportError ''connection refused''"
       and t = "JStr ''get_result''" and a = "JObj []"
       and e' = "TransportError ''server disconnected''"]
    call_tool_propagates_establish_failure
    [where c = cam and loads = loads_sample and estr = estr_sample
       and env = quiet and e = "TransportError ''connection refused''"
       and t = "JStr ''get_result''" and a = "JObj []"
       and e' = "TransportError ''server disconnected''"]
  by (simp add: cam_def new_client_def)

section \<open>The stream fallback\<close>

lemma scan_sse_passed_over:
  "list_all (passed_over loads rid) pre \<Longrightarrow>
   scan_sse loads rid (pre @ rest) fin = scan_sse loads rid rest fin"
  by (induction pre)
     (auto simp: passed_over_def is_data_line_def data_payload_def Let_def
           split: option.splits if_splits)

lemma scan_sse_answer:
  "answer_line loads rid line d \<Longrightarrow> scan_sse loads rid (line # rest) fin = Inr d"
  by (simp add: answer_line_def is_data_line_def data_payload_def)

lemma scan_sse_sentinel:
  "sentinel_line line \<Longrightarrow> scan_sse loads rid (line # rest) fin = Inr (JObj [])"
  by (simp add: sentinel_line_def is_data_line_def data_payload_def)

lemma matches_id_truthy: "matches_id d rid \<Longrightarrow> truthy d"
  by (cases d) (auto simp: dict_get_def)

text \<open>
  Claim C4, as stated, fails: the sentinel is a data line whose payload does not parse,
  and it is not passed over; it ends the scan, so an answer that follows it is not used.
\<close>

theorem stream_fallback_sentinel_counterexample:
  \<open>answer_line loads_sample 1 ''data: {"id": 1, "result": {"content": "ok"}}''
      (JObj [(''id'', JInt 1), (''result'', JObj [(''content'', JStr ''ok'')])])
   \<and> fst (call_tool_via_sse loads_sample estr_sample
        (Inr ([''data: [DONE]'', ''data: {"id": 1, "result": {"content": "ok"}}''], None))
        (JStr ''get_result'') (JObj []) cam)
     = error_envelope ''No response received''\<close>
  by (simp add: answer_line_def is_data_line_def data_payload_def strip_def is_space_def py_isspace_def
        startswith_def loads_sample_def dict_get_def call_tool_via_sse_def get_next_id_def cam_def)

text \<open>
  Claim C4, amended. In the stream fallback, lines without the data prefix and data lines
  whose payload is not the sentinel and is unparseable, a bare number, or any value that is
  not a dictionary with the request's id are passed over and the scan goes on. The scan
  stops at the first answer or sentinel. At an answer the call returns its normalization
  (or, when normalization raises, the envelope with that exception's description); at the
  sentinel, or when the stream ends with neither, it returns the envelope
  \<^verbatim>\<open>-32603\<close> / \<^verbatim>\<open>No response received\<close>.
\<close>

theorem stream_fallback_scan:
  assumes "list_all (passed_over loads (request_id c + 1)) pre"
  shows "(answer_line loads (request_id c + 1) line d \<longrightarrow>
            fst (call_tool_via_sse loads estr (Inr (pre @ line # rest, fin)) t a c) =
              (case process_tool_response d of
                 Inl e \<Rightarrow> error_envelope (estr e) | Inr r \<Rightarrow> r))
       \<and> (sentinel_line line \<longrightarrow>
            fst (call_tool_via_sse loads estr (Inr (pre @ line # rest, fin)) t a c) =
              error_envelope ''No response received'')
       \<and> fst (call_tool_via_sse loads estr (Inr (pre, None)) t a c) =
              error_envelope ''No response received''"
proof (intro conjI impI)
  assume al: "answer_line loads (request_id c + 1) line d"
  then have "scan_sse loads (request_id c + 1) (line # rest) fin = Inr d"
    by (rule scan_sse_answer)
  then have "scan_sse loads (request_id c + 1) (pre @ line # rest) fin = Inr d"
    using assms by (simp only: scan_sse_passed_over)
  moreover have "truthy d"
    using al by (auto simp: answer_line_def intro: matches_id_truthy)
  ultimately show "fst (call_tool_via_sse loads estr (Inr (pre @ line # rest, fin)) t a c) =
      (case process_tool_response d of Inl e \<Rightarrow> error_envelope (estr e) | Inr r \<Rightarrow> r)"
    by (simp add: call_tool_via_sse_def get_next_id_def split: sum.splits)
next
  assume "sentinel_line line"
  then have "scan_sse loads (request_id c + 1) (line # rest) fin = Inr (JObj [])"
    by (rule scan_sse_sentinel)
  then have "scan_sse loads (request_id c + 1) (pre @ line # rest) fin = Inr (JObj [])"
    using assms by (simp only: scan_sse_passed_over)
  then show "fst (call_tool_via_sse loads estr (Inr (pre @ line # rest, fin)) t a c) =
      error_envelope ''No response received''"
    by (simp add: call_tool_via_sse_def get_next_id_def)
next
  have "scan_sse loads (request_id c + 1) (pre @ []) None = Inr (JObj [])"
    using assms by (simp only: scan_sse_passed_over) simp
  then show "fst (call_tool_via_sse loads estr (Inr (pre, None)) t a c) =
      error_envelope ''No response received''"
    by (simp add: call_tool_via_sse_def get_next_id_def)
qed

theorem stream_fallback_scan_witness:
  \<open>list_all (passed_over loads_sample (request_id cam + 1)) [''data: 5'', '': keep-alive'', ''data: 17 items'']
   \<and> answer_line loads_sample (request_id cam + 1) ''data: {"id": 1, "result": {"content": "ok"}}''
         (JObj [(''id'', JInt 1), (''result'', JObj [(''content'', JStr ''ok'')])])
   \<and> sentinel_line ''data: [DONE]''
   \<and> fst (call_tool_via_sse loads_sample estr_sample
        (Inr ([''data: 5'', '': keep-alive'', ''data: 17 items'',
               ''data: {"id": 1, "result": {"content": "ok"}}'', ''data: [DONE]''], None))
        (JStr ''get_result'') (JObj []) cam)
     = JObj [(''jsonrpc'', JStr ''2.0''), (''id'', JInt 1),
             (''result'', JObj [(''isError'', JBool False), (''content'', JStr ''ok'')])]
   \<and> fst (call_tool_via_sse loads_sample estr_sample
        (Inr ([''data: 5'', '': keep-alive'', ''data: 17 items'', ''data: [DONE]''], None))
        (JStr ''get_result'') (JObj []) cam)
     = error_envelope ''No response received''
   \<and> fst (call_tool_via_sse loads_sample estr_sample
        (Inr ([''data: 5'', '': keep-alive'', ''data: 17 items''], None))
        (JStr ''get_result'') (JObj []) cam)
     = error_envelope ''No response received''\<close>
proof -
  have h: \<open>list_all (passed_over loads_sample (request_id cam + 1))
             [''data: 5'', '': keep-alive'', ''data: 17 items'']\<close>
    by (simp add: passed_over_def is_data_line_def data_payload_def strip_def is_space_def py_isspace_def
          startswith_def loads_sample_def cam_def)
  have a: \<open>answer_line loads_sample (request_id cam + 1) ''data: {"id": 1, "result": {"content": "ok"}}''
         (JObj [(''id'', JInt 1), (''result'', JObj [(''content'', JStr ''ok'')])])\<close>
    by (simp add: answer_line_def is_data_line_def data_payload_def strip_def is_space_def py_isspace_def
          startswith_def loads_sample_def cam_def dict_get_def)
  have s: "sentinel_line ''data: [DONE]''"
    by (simp add: sentinel_line_def is_data_line_def data_payload_def strip_def is_space_def py_isspace_def
          startswith_def)
  have p: "process_tool_response (JObj [(''id'', JInt 1), (''result'', JObj [(''content'', JStr ''ok'')])])
     = Inr (JObj [(''jsonrpc'', JStr ''2.0''), (''id'', JInt 1),
             (''result'', JObj [(''isError'', JBool False), (''content'', JStr ''ok'')])])"
    by (simp add: dict_has_def dict_get_def py_join_def)
  from stream_fallback_scan[OF h, where estr = estr_sample and t = "JStr ''get_result''" and a = "JObj []"
      and line = \<open>''data: {"id": 1, "result": {"content": "ok"}}''\<close>
      and d = "JObj [(''id'', JInt 1), (''result'', JObj [(''content'', JStr ''ok'')])]"
      and rest = "[''data: [DONE]'']" and fin = None]
    stream_fallback_scan[OF h, where estr = estr_sample and t = "JStr ''get_result''" and a = "JObj []"
      and line = "''data: [DONE]''" and rest = "[]" and fin = None]
    h a s p
  show ?thesis by simp
qed





section \<open>The bridge server: properties\<close>

text \<open>
  Claim C9, as stated, fails: the status is 400, but the message in the body is
  \<^verbatim>\<open>Missing 'tool' parameter\<close>, with the quotation marks.
\<close>

theorem missing_tool_body_counterexample:
  "fst (handle_tool_call loads_sample estr_sample quiet ''{}'' cam)
   = \<lparr>status_code = 400, payload = JsonBody (JObj [(''error'', JStr ''Missing 'tool' parameter'')])\<rparr>
  \<and> fst (handle_tool_call loads_sample estr_sample quiet ''{}'' cam)
   \<noteq> \<lparr>status_code = 400, payload = JsonBody (JObj [(''error'', JStr ''Missing tool parameter'')])\<rparr>"
  by (simp add: handle_tool_call_def loads_sample_def dict_get_def json_response_def)

text \<open>
  Claim C9, amended. A \<^verbatim>\<open>POST /call\<close> whose body is a JSON object without a tool name
  (no \<^verbatim>\<open>tool\<close> member, or an empty or otherwise false one), in particular the body
  \<^verbatim>\<open>{}\<close>, is answered with status 400 and the body
  \<^verbatim>\<open>{"error": "Missing 'tool' parameter"}\<close>; nothing is sent upstream.
\<close>

theorem missing_tool:
  assumes "loads body = Some (JObj kv)" and "\<not> truthy (dict_get kv ''tool'' JNull)"
  shows "handle_tool_call loads estr env body c =
     (json_response (JObj [(''error'', JStr ''Missing 'tool' parameter'')]) 400, c, [])"
  using assms by (simp add: handle_tool_call_def)

theorem missing_tool_witness:
  "loads_sample ''{}'' = Some (JObj []) \<and> \<not> truthy (dict_get [] ''tool'' JNull)
  \<and> handle_tool_call loads_sample estr_sample quiet ''{}'' cam
   = (json_response (JObj [(''error'', JStr ''Missing 'tool' parameter'')]) 400, cam, [])"
  using missing_tool[of loads_sample "''{}''" "[]" estr_sample quiet cam]
  by (simp add: loads_sample_def dict_get_def)

end
